theory Spec2Isabelle
  imports Complex_Main
begin

section \<open>JavaScript values and string helpers\<close>

text \<open>
  Strings are byte strings. \<open>trim\<close>, \<open>toUpperCase\<close> and \<open>toLowerCase\<close> are
  those of \<open>String.prototype\<close> on strings of ASCII characters: the white space removed
  is space, tab, line feed, vertical tab, form feed and carriage return, and only the
  letters a-z / A-Z change case. The Unicode white space and the letters beyond ASCII are
  outside the model; the general statements below hold whatever the two functions
  compute, and only the examples, on ASCII slugs, evaluate them.
\<close>

definition isWhitespace :: "char \<Rightarrow> bool" where
  "isWhitespace c = (of_char c \<in> {32, 9, 10, 11, 12, 13 :: nat})"

definition trim :: "string \<Rightarrow> string" where
  "trim s = rev (dropWhile isWhitespace (rev (dropWhile isWhitespace s)))"

definition upper_char :: "char \<Rightarrow> char" where
  "upper_char c =
     (let n = (of_char c :: nat) in if 97 \<le> n \<and> n \<le> 122 then char_of (n - 32) else c)"

definition lower_char :: "char \<Rightarrow> char" where
  "lower_char c =
     (let n = (of_char c :: nat) in if 65 \<le> n \<and> n \<le> 90 then char_of (n + 32) else c)"

definition toUpperCase :: "string \<Rightarrow> string" where
  "toUpperCase s = map upper_char s"

definition toLowerCase :: "string \<Rightarrow> string" where
  "toLowerCase s = map lower_char s"

text \<open>SQLite's \<open>LOWER()\<close> folds the ASCII letters only.\<close>

definition LOWER :: "string \<Rightarrow> string" where
  "LOWER s = map lower_char s"

text \<open>
  An optional string stands for a JavaScript value that is a string, \<open>null\<close> or
  \<open>undefined\<close> (\<open>None\<close>). It is truthy when it is a non-empty string.
\<close>

definition truthy_str :: "string option \<Rightarrow> bool" where
  "truthy_str v = (case v of None \<Rightarrow> False | Some s \<Rightarrow> s \<noteq> [])"

text \<open>The errors raised by the services; \<open>TypeError\<close>, \<open>SyntaxError\<close> and
  \<open>RangeError\<close> are the runtime's own.\<close>

datatype error =
    TypeError
  | SyntaxError
  | user_not_found
  | site_not_found
  | feedback_not_found
  | invalid_pin
  | invalid_plan
  | rating_and_comment_required
  | rating_must_be_between_1_and_5
  | RangeError

section \<open>Tables\<close>

text \<open>
  A value as SQLite stores it in the \<open>DATETIME\<close> column \<open>billing_next\<close>: the column
  has numeric affinity, so what is written is kept as a number when it is one (or a text
  that reads as one) and as the text itself otherwise.
\<close>

datatype sql_value = SqlNumber rat | SqlText string

text \<open>A stored value as a JavaScript condition: zero and the empty text are falsy.\<close>

definition truthy_sql :: "sql_value option \<Rightarrow> bool" where
  "truthy_sql v =
     (case v of None \<Rightarrow> False | Some (SqlNumber n) \<Rightarrow> n \<noteq> 0 | Some (SqlText t) \<Rightarrow> t \<noteq> [])"

text \<open>
  The order of two texts under SQLite's default collation: the bytes are compared as
  \<open>memcmp\<close> does, and of two texts that agree on the shorter length the shorter is less.
\<close>

fun text_less :: "string \<Rightarrow> string \<Rightarrow> bool" where
  "text_less [] [] = False"
| "text_less [] (y # ys) = True"
| "text_less (x # xs) [] = False"
| "text_less (x # xs) (y # ys) =
     ((of_char x :: nat) < of_char y \<or> ((of_char x :: nat) = of_char y \<and> text_less xs ys))"

text \<open>\<open>v < t\<close> for a stored value \<open>v\<close> and a text \<open>t\<close>: a number is less than every text.\<close>

definition sql_less_text :: "sql_value \<Rightarrow> string \<Rightarrow> bool" where
  "sql_less_text v t = (case v of SqlNumber n \<Rightarrow> True | SqlText b \<Rightarrow> text_less b t)"

text \<open>
  SQLite's clock at the time of a call: applied to \<open>n\<close> it is the text that
  \<open>datetime('now', 'n days')\<close> returns, and applied to 0 the text of
  \<open>CURRENT_TIMESTAMP\<close>.
\<close>

type_synonym sqlite_now = "int \<Rightarrow> string"

text \<open>
  Rows of \<open>schema.sql\<close>. A nullable column is an option. \<open>billing_next\<close> is the
  stored value and \<open>updated_at\<close> the stored text; the \<open>created_at\<close> columns of the
  settings and feedback tables are milliseconds since the epoch.
\<close>

record user =
  user_id :: nat
  role :: string
  email :: string
  site_slug :: "string option"
  plan :: string
  billing_status :: "string option"
  billing_next :: "sql_value option"
  billing_amount :: "rat option"
  billing_currency :: "string option"
  billing_provider :: "string option"
  updated_at :: string

record site =
  slug :: string
  active :: bool
  site_notes :: string
  vip_pin_hash :: "string option"

record settings_row =
  settings_id :: nat
  settings_site_slug :: string
  settings_json :: string
  created_at :: int

record feedback =
  feedback_id :: nat
  feedback_site_slug :: string
  feedback_name :: "string option"
  feedback_email :: "string option"
  feedback_phone :: "string option"
  rating :: rat
  comment :: string
  approved :: bool
  feedback_created_at :: int

text \<open>
  The database: the four tables the services below touch, and the row-id sequences of
  the two tables they insert into (\<open>AUTOINCREMENT\<close>).
\<close>

record database =
  users :: "user list"
  sites :: "site list"
  settings_kv :: "settings_row list"
  settings_seq :: nat
  feedbacks :: "feedback list"
  feedbacks_seq :: nat

section \<open>SiteService\<close>

text \<open>
  \<open>slug.trim().toUpperCase()\<close>: reading \<open>trim\<close> of \<open>null\<close> or \<open>undefined\<close> raises
  a TypeError.
\<close>

definition normalizeSiteSlug :: "string option \<Rightarrow> error + string" where
  "normalizeSiteSlug sl =
     (case sl of None \<Rightarrow> Inl TypeError | Some s \<Rightarrow> Inr (toUpperCase (trim s)))"

definition getSite :: "database \<Rightarrow> string option \<Rightarrow> error + site option" where
  "getSite db sl =
     (case normalizeSiteSlug sl of
        Inl e \<Rightarrow> Inl e
      | Inr normalizedSlug \<Rightarrow> Inr (find (\<lambda>s. slug s = normalizedSlug) (sites db)))"

text \<open>
  \<open>UPDATE sites SET active = ? WHERE slug = ?\<close>; no changed row raises
  \<open>site_not_found\<close>. The result is the returned object and the new database.
\<close>

definition toggleSite ::
  "database \<Rightarrow> string option \<Rightarrow> bool \<Rightarrow> error + ((string \<times> bool) \<times> database)" where
  "toggleSite db sl a =
     (case normalizeSiteSlug sl of
        Inl e \<Rightarrow> Inl e
      | Inr normalizedSlug \<Rightarrow>
          if filter (\<lambda>s. slug s = normalizedSlug) (sites db) = [] then Inl site_not_found
          else Inr ((normalizedSlug, a),
                 db\<lparr>sites := map (\<lambda>s. if slug s = normalizedSlug then s\<lparr>active := a\<rparr> else s)
                                (sites db)\<rparr>))"

text \<open>
  \<open>validateVipPin\<close>. The hash comparison of the bcrypt library is the parameter
  \<open>compare\<close> (PIN, stored hash).
\<close>

definition validateVipPin ::
  "(string \<Rightarrow> string \<Rightarrow> bool) \<Rightarrow> database \<Rightarrow> string option \<Rightarrow> string option \<Rightarrow> error + bool" where
  "validateVipPin compare db sl pin =
     (if \<not> truthy_str pin then Inr False
      else case getSite db sl of
             Inl e \<Rightarrow> Inl e
           | Inr None \<Rightarrow> Inr False
           | Inr (Some s) \<Rightarrow>
               if \<not> truthy_str (vip_pin_hash s) then Inr False
               else Inr (compare (the pin) (the (vip_pin_hash s))))"

section \<open>SubscriptionService\<close>

definition activeStatuses :: "string list" where
  "activeStatuses = [''approved'', ''authorized'', ''accredited'', ''recurring_charges'']"

text \<open>\<open>activeStatuses.includes(status)\<close>; an unset status is in no list of strings.\<close>

definition isActiveBillingStatus :: "string option \<Rightarrow> bool" where
  "isActiveBillingStatus status =
     (case status of None \<Rightarrow> False | Some s \<Rightarrow> s \<in> set activeStatuses)"

text \<open>The private copy of the predicate in the authentication middleware.\<close>

definition auth_isActiveBillingStatus :: "string option \<Rightarrow> bool" where
  "auth_isActiveBillingStatus status =
     (case status of None \<Rightarrow> False
      | Some s \<Rightarrow> s \<in> set [''approved'', ''authorized'', ''accredited'', ''recurring_charges''])"

definition GRACE_DAYS :: int where
  "GRACE_DAYS = 3"

text \<open>
  The JavaScript dates of the server process: the time value of \<open>new Date()\<close> in
  milliseconds, the time value of \<open>new Date(v)\<close> for a stored value \<open>v\<close> (\<open>None\<close>
  for an invalid date), and the time value after \<open>d.setDate(d.getDate() + n)\<close>, which
  adds \<open>n\<close> calendar days in the local time zone.
\<close>

record js_dates =
  Date_now :: int
  Date_of :: "sql_value \<Rightarrow> int option"
  Date_plus_days :: "int \<Rightarrow> int \<Rightarrow> int"

record last_payment =
  lp_date :: string
  lp_amount :: "rat option"
  lp_currency :: "string option"
  lp_status :: "string option"
  lp_provider :: "string option"

record subscription_status =
  st_siteSlug :: string
  st_email :: string
  st_plan :: string
  st_status :: "string option"
  isActive :: bool
  isVip :: bool
  isOverdue :: bool
  gracePeriodEnd :: "int option"
  nextCharge :: "sql_value option"
  st_amount :: "rat option"
  st_currency :: "string option"
  st_provider :: "string option"
  lastPayment :: "last_payment option"

definition getUserById :: "database \<Rightarrow> nat \<Rightarrow> user option" where
  "getUserById db userId = find (\<lambda>u. user_id u = userId) (users db)"

text \<open>\<open>!user.billing_amount\<close> holds for a missing amount and for the amount 0.\<close>

definition getLastPayment :: "database \<Rightarrow> nat \<Rightarrow> last_payment option" where
  "getLastPayment db userId =
     (case getUserById db userId of
        None \<Rightarrow> None
      | Some u \<Rightarrow>
          if billing_amount u = None \<or> billing_amount u = Some 0 then None
          else Some \<lparr>lp_date = updated_at u, lp_amount = billing_amount u,
                     lp_currency = billing_currency u, lp_status = billing_status u,
                     lp_provider = billing_provider u\<rparr>)"

text \<open>
  The row the two \<open>SELECT\<close> statements of \<open>getSubscriptionStatus\<close> return
  (\<open>stmt.get\<close>: the first matching row), for a slug already normalised.
\<close>

definition selectUser :: "database \<Rightarrow> string \<Rightarrow> string option \<Rightarrow> user option" where
  "selectUser db normalizedSlug email_arg =
     (if truthy_str email_arg
      then find (\<lambda>u. LOWER (email u) = LOWER (trim (toLowerCase (the email_arg)))
                     \<or> site_slug u = Some normalizedSlug) (users db)
      else find (\<lambda>u. site_slug u = Some normalizedSlug) (users db))"

text \<open>
  The object returned for the selected row. \<open>isOverdue\<close> and \<open>gracePeriodEnd\<close> are
  computed only when \<open>billing_next\<close> is truthy. \<open>gracePeriodEnd\<close> is the time value
  whose ISO text is returned; \<open>toISOString\<close> raises a RangeError on an invalid date, and
  an invalid date is less than nothing.
\<close>

definition statusOf ::
  "database \<Rightarrow> js_dates \<Rightarrow> string \<Rightarrow> user \<Rightarrow> error + subscription_status" where
  "statusOf db dates normalizedSlug u =
     (let active_now = isActiveBillingStatus (billing_status u);
          vip = (plan u = ''vip'' \<or> active_now);
          nextDate = (if truthy_sql (billing_next u)
                      then Date_of dates (the (billing_next u)) else None)
      in if truthy_sql (billing_next u) \<and> nextDate = None then Inl RangeError
         else Inr \<lparr>st_siteSlug = normalizedSlug,
                st_email = email u,
                st_plan = plan u,
                st_status = billing_status u,
                isActive = active_now,
                isVip = vip,
                isOverdue = (case nextDate of None \<Rightarrow> False
                             | Some t \<Rightarrow> t < Date_now dates),
                gracePeriodEnd = (case nextDate of None \<Rightarrow> None
                                  | Some t \<Rightarrow> Some (Date_plus_days dates t GRACE_DAYS)),
                nextCharge = billing_next u,
                st_amount = billing_amount u,
                st_currency = billing_currency u,
                st_provider = billing_provider u,
                lastPayment = getLastPayment db (user_id u)\<rparr>)"

text \<open>
  \<open>getSubscriptionStatus(siteSlug, email = null)\<close>. The slug is normalised before
  anything else, whatever the e-mail argument is.
\<close>

definition getSubscriptionStatus ::
  "database \<Rightarrow> js_dates \<Rightarrow> string option \<Rightarrow> string option \<Rightarrow> error + subscription_status" where
  "getSubscriptionStatus db dates siteSlug email_arg =
     (case normalizeSiteSlug siteSlug of
        Inl e \<Rightarrow> Inl e
      | Inr normalizedSlug \<Rightarrow>
          (case selectUser db normalizedSlug email_arg of
             None \<Rightarrow> Inl user_not_found
           | Some u \<Rightarrow> statusOf db dates normalizedSlug u))"

text \<open>
  The \<open>WHERE\<close> clause of the sweep: \<open>billing_next IS NOT NULL AND billing_next <
  datetime('now', '-3 days') AND billing_status NOT IN ('cancelled', 'suspended')\<close>.
  The stored value is compared with the text that \<open>datetime\<close> returns, as SQLite
  compares values. In SQL a \<open>NULL\<close> status makes \<open>NOT IN\<close> unknown, so the row is
  not selected.
\<close>

definition overdueUser :: "sqlite_now \<Rightarrow> user \<Rightarrow> bool" where
  "overdueUser now u =
     ((case billing_next u of None \<Rightarrow> False
       | Some nextDate \<Rightarrow> sql_less_text nextDate (now (- GRACE_DAYS)))
      \<and> (case billing_status u of None \<Rightarrow> False
         | Some s \<Rightarrow> s \<notin> set [''cancelled'', ''suspended'']))"

text \<open>
  \<open>UPDATE users SET billing_status = 'cancelled' WHERE id = ?\<close>, with the trigger
  of the schema that stamps \<open>updated_at\<close> with \<open>CURRENT_TIMESTAMP\<close> on every
  updated user row.
\<close>

definition cancelUser :: "sqlite_now \<Rightarrow> nat \<Rightarrow> database \<Rightarrow> database" where
  "cancelUser now uid db =
     db\<lparr>users := map (\<lambda>u. if user_id u = uid
                           then u\<lparr>billing_status := Some ''cancelled'', updated_at := now 0\<rparr>
                           else u) (users db)\<rparr>"

text \<open>What the sweep writes to the console.\<close>

datatype log_entry = Deactivated string | ErrorDeactivating string error

text \<open>
  The loop over the selected rows. The state is the database and the console; an error
  of \<open>toggleSite\<close> is caught, logged, and the loop goes on.
\<close>

fun sweep :: "sqlite_now \<Rightarrow> user list \<Rightarrow> database \<times> log_entry list \<Rightarrow> database \<times> log_entry list" where
  "sweep now [] st = st"
| "sweep now (u # us) (db, console) =
     (let db1 = cancelUser now (user_id u) db
      in if truthy_str (site_slug u)
         then (case toggleSite db1 (site_slug u) False of
                 Inr (r, db2) \<Rightarrow> sweep now us (db2, console @ [Deactivated (the (site_slug u))])
               | Inl e \<Rightarrow> sweep now us (db1, console @ [ErrorDeactivating (the (site_slug u)) e]))
         else sweep now us (db1, console))"

record sweep_result =
  processed :: nat
  deactivatedSites :: "string list"

definition processGracePeriodCheck ::
  "database \<Rightarrow> sqlite_now \<Rightarrow> sweep_result \<times> database \<times> log_entry list" where
  "processGracePeriodCheck db now =
     (let overdueUsers = filter (overdueUser now) (users db);
          final = sweep now overdueUsers (db, [])
      in (\<lparr>processed = length overdueUsers,
           deactivatedSites = map (\<lambda>u. the (site_slug u))
                                (filter (\<lambda>u. truthy_str (site_slug u)) overdueUsers)\<rparr>,
          fst final, snd final))"

text \<open>Two notions used to state what the sweep does: a user row after cancellation, and
  the normalised slugs of the sites the sweep tries to deactivate.\<close>

definition cancelled :: "sqlite_now \<Rightarrow> user \<Rightarrow> user" where
  "cancelled now u = u\<lparr>billing_status := Some ''cancelled'', updated_at := now 0\<rparr>"

definition targets :: "user list \<Rightarrow> string list" where
  "targets us = map (\<lambda>u. toUpperCase (trim (the (site_slug u))))
                  (filter (\<lambda>u. truthy_str (site_slug u)) us)"

section \<open>JSON values\<close>

text \<open>
  A value read by \<open>JSON.parse\<close> or by the JSON body parser. An object is its list of
  members in insertion order.
\<close>

datatype json =
    JNull
  | JBool bool
  | JNum rat
  | JStr string
  | JArr "json list"
  | JObj "(string \<times> json) list"

fun truthy :: "json \<Rightarrow> bool" where
  "truthy JNull = False"
| "truthy (JBool b) = b"
| "truthy (JNum n) = (n \<noteq> 0)"
| "truthy (JStr s) = (s \<noteq> [])"
| "truthy (JArr xs) = True"
| "truthy (JObj kvs) = True"

text \<open>
  Reading the member \<open>security\<close> or \<open>vip_pin\<close> of a value: a TypeError on
  \<open>null\<close>, \<open>undefined\<close> (\<open>None\<close>) on a value that is not an object or lacks the member.
\<close>

fun getProp :: "json \<Rightarrow> string \<Rightarrow> error + json option" where
  "getProp JNull k = Inl TypeError"
| "getProp (JObj kvs) k = Inr (map_of kvs k)"
| "getProp v k = Inr None"

text \<open>\<open>delete v.k\<close>: removes the member of an object and does nothing to other values.\<close>

fun deleteProp :: "json \<Rightarrow> string \<Rightarrow> json" where
  "deleteProp (JObj kvs) k = JObj (filter (\<lambda>kv. fst kv \<noteq> k) kvs)"
| "deleteProp v k = v"

text \<open>The object \<open>j\<close> after its member \<open>k\<close>, an object shared by reference, became \<open>v\<close>.\<close>

fun replaceProp :: "json \<Rightarrow> string \<Rightarrow> json \<Rightarrow> json" where
  "replaceProp (JObj kvs) k v = JObj (map (\<lambda>kv. if fst kv = k then (k, v) else kv) kvs)"
| "replaceProp j k v = j"

text \<open>The decimal name of an array index.\<close>

fun index_key :: "nat \<Rightarrow> string" where
  "index_key n =
     (if n < 10 then [char_of (48 + n)] else index_key (n div 10) @ [char_of (48 + n mod 10)])"

text \<open>
  The own enumerable members that the object spread \<open>{ ...settings }\<close> copies: the members
  of an object, the indexed elements of an array or of a string, nothing otherwise.
\<close>

fun spread :: "json \<Rightarrow> (string \<times> json) list" where
  "spread (JObj kvs) = kvs"
| "spread (JArr xs) = zip (map index_key [0..<length xs]) xs"
| "spread (JStr s) = zip (map index_key [0..<length s]) (map (\<lambda>c. JStr [c]) s)"
| "spread v = []"

text \<open>Whether a value has a member \<open>vip_pin\<close> inside an object member \<open>security\<close>.\<close>

definition has_vip_pin :: "json \<Rightarrow> bool" where
  "has_vip_pin j =
     (case j of
        JObj kvs \<Rightarrow> (case map_of kvs ''security'' of
                       Some (JObj sec) \<Rightarrow> ''vip_pin'' \<in> fst ` set sec
                     | _ \<Rightarrow> False)
      | _ \<Rightarrow> False)"

section \<open>SettingsService\<close>

definition defaultSettings :: json where
  "defaultSettings = JObj [(''sections'', JObj [(''defs'', JArr []), (''data'', JObj [])])]"

text \<open>
  \<open>ORDER BY created_at DESC LIMIT 1\<close> over the rows of one site: a row with the
  greatest \<open>created_at\<close> (the earliest inserted one among equals).
\<close>

definition latestSettings :: "settings_row list \<Rightarrow> settings_row option" where
  "latestSettings rows =
     (case rows of
        [] \<Rightarrow> None
      | r # rs \<Rightarrow> Some (foldl (\<lambda>best x. if created_at best < created_at x then x else best) r rs))"

text \<open>
  The body of the \<open>try\<close> block of \<open>getSettings\<close>. \<open>JSON.parse\<close> is the parameter
  \<open>parse\<close>, \<open>None\<close> where it raises a SyntaxError.
\<close>

definition readSettings :: "(string \<Rightarrow> json option) \<Rightarrow> string \<Rightarrow> error + json" where
  "readSettings parse text =
     (case parse text of
        None \<Rightarrow> Inl SyntaxError
      | Some settings \<Rightarrow>
          (case getProp settings ''security'' of
             Inl e \<Rightarrow> Inl e
           | Inr None \<Rightarrow> Inr settings
           | Inr (Some sec) \<Rightarrow>
               if truthy sec
               then Inr (replaceProp settings ''security'' (deleteProp sec ''vip_pin''))
               else Inr settings))"

definition getSettings ::
  "(string \<Rightarrow> json option) \<Rightarrow> database \<Rightarrow> string option \<Rightarrow> error + json" where
  "getSettings parse db siteSlug =
     (case normalizeSiteSlug siteSlug of
        Inl e \<Rightarrow> Inl e
      | Inr normalizedSlug \<Rightarrow>
          (case latestSettings
                  (filter (\<lambda>r. settings_site_slug r = normalizedSlug) (settings_kv db)) of
             None \<Rightarrow> Inr defaultSettings
           | Some result \<Rightarrow>
               (case readSettings parse (settings_json result) of
                  Inl e \<Rightarrow> Inr defaultSettings
                | Inr settings \<Rightarrow> Inr settings)))"

text \<open>
  The copy of the payload that \<open>saveSettings\<close> serialises: \<open>vip_pin\<close> is deleted from
  \<open>security\<close> when both \<open>cleanSettings.security\<close> and
  \<open>cleanSettings.security.vip_pin\<close> are truthy.
\<close>

definition cleanSettings :: "json \<Rightarrow> json" where
  "cleanSettings settings =
     (let copy = JObj (spread settings)
      in case map_of (spread settings) ''security'' of
           None \<Rightarrow> copy
         | Some sec \<Rightarrow>
             if truthy sec
                \<and> (case getProp sec ''vip_pin'' of Inr (Some p) \<Rightarrow> truthy p | _ \<Rightarrow> False)
             then replaceProp copy ''security'' (deleteProp sec ''vip_pin'')
             else copy)"

text \<open>\<open>INSERT INTO settings_kv (site_slug, settings_json)\<close>; \<open>created_at\<close> is the
  current time.\<close>

definition insertSettings ::
  "database \<Rightarrow> int \<Rightarrow> string \<Rightarrow> string \<Rightarrow> (nat \<times> string) \<times> database" where
  "insertSettings db now normalizedSlug text =
     (let rowid = Suc (settings_seq db)
      in ((rowid, normalizedSlug),
          db\<lparr>settings_kv := settings_kv db @
                 [\<lparr>settings_id = rowid, settings_site_slug = normalizedSlug,
                   settings_json = text, created_at = now\<rparr>],
              settings_seq := rowid\<rparr>))"

text \<open>
  \<open>saveSettings(siteSlug, settings, pin = null, requirePin = false)\<close>.
  \<open>JSON.stringify\<close> is the parameter \<open>stringify\<close>. The result is the returned pair
  of row id and normalised slug, and the new database.
\<close>

definition saveSettings ::
  "(json \<Rightarrow> string) \<Rightarrow> (string \<Rightarrow> string \<Rightarrow> bool) \<Rightarrow> database \<Rightarrow> int \<Rightarrow>
   string option \<Rightarrow> json \<Rightarrow> string option \<Rightarrow> bool \<Rightarrow> error + ((nat \<times> string) \<times> database)" where
  "saveSettings stringify compare db now siteSlug settings pin requirePin =
     (case normalizeSiteSlug siteSlug of
        Inl e \<Rightarrow> Inl e
      | Inr normalizedSlug \<Rightarrow>
          if requirePin
          then (case validateVipPin compare db (Some normalizedSlug) pin of
                  Inl e \<Rightarrow> Inl e
                | Inr valid \<Rightarrow>
                    if \<not> valid then Inl invalid_pin
                    else Inr (insertSettings db now normalizedSlug
                                (stringify (cleanSettings settings))))
          else Inr (insertSettings db now normalizedSlug (stringify (cleanSettings settings))))"

section \<open>The settings route\<close>

text \<open>
  The decoded token that \<open>verifyToken\<close> leaves in \<open>req.user\<close>, the three outcomes
  of reading the authorization header, the JSON body of the request, and the response.
\<close>

record token_user =
  tok_role :: string
  tok_plan :: string

datatype authorization = NoToken | InvalidToken | Bearer token_user

record settings_body =
  body_site :: "string option"
  body_settings :: "json option"
  body_pin :: "string option"

datatype response =
    Failure nat string
  | Saved nat string

text \<open>\<open>POST /api/settings\<close>, behind \<open>verifyToken\<close>.\<close>

definition post_settings ::
  "(json \<Rightarrow> string) \<Rightarrow> (string \<Rightarrow> string \<Rightarrow> bool) \<Rightarrow> database \<Rightarrow> int \<Rightarrow>
   authorization \<Rightarrow> settings_body \<Rightarrow> response \<times> database" where
  "post_settings stringify compare db now auth body =
     (case auth of
        NoToken \<Rightarrow> (Failure 401 ''token_required'', db)
      | InvalidToken \<Rightarrow> (Failure 401 ''invalid_token'', db)
      | Bearer req_user \<Rightarrow>
          if \<not> truthy_str (body_site body)
             \<or> \<not> (case body_settings body of None \<Rightarrow> False | Some j \<Rightarrow> truthy j)
          then (Failure 400 ''site_and_settings_required'', db)
          else
            let isAdmin = (tok_role req_user = ''admin'');
                isVipPlan = (tok_plan req_user = ''vip'');
                requirePin = (\<not> isAdmin \<and> isVipPlan)
            in if \<not> isAdmin \<and> \<not> isVipPlan
               then (Failure 403 ''vip_or_admin_required'', db)
               else (case saveSettings stringify compare db now (body_site body)
                            (the (body_settings body)) (body_pin body) requirePin of
                       Inl e \<Rightarrow> if e = invalid_pin then (Failure 403 ''invalid_pin'', db)
                                else (Failure 500 ''internal_error'', db)
                     | Inr (r, db') \<Rightarrow> (Saved (fst r) (snd r), db')))"

section \<open>FeedbackService\<close>

text \<open>The argument object of \<open>createFeedback\<close>; a rating is a JSON number or absent.\<close>

record feedback_data =
  fd_siteSlug :: "string option"
  fd_name :: "string option"
  fd_email :: "string option"
  fd_phone :: "string option"
  fd_rating :: "rat option"
  fd_comment :: "string option"

record created_feedback =
  cf_id :: nat
  cf_siteSlug :: string
  cf_name :: "string option"
  cf_email :: "string option"
  cf_phone :: "string option"
  cf_rating :: rat
  cf_comment :: string
  cf_approved :: bool
  cf_createdAt :: int

text \<open>\<open>v?.trim() || null\<close>.\<close>

definition trimmed_or_null :: "string option \<Rightarrow> string option" where
  "trimmed_or_null v =
     (case v of None \<Rightarrow> None | Some s \<Rightarrow> if trim s = [] then None else Some (trim s))"

definition createFeedback ::
  "database \<Rightarrow> int \<Rightarrow> feedback_data \<Rightarrow> error + (created_feedback \<times> database)" where
  "createFeedback db now feedbackData =
     (case normalizeSiteSlug (fd_siteSlug feedbackData) of
        Inl e \<Rightarrow> Inl e
      | Inr normalizedSlug \<Rightarrow>
          if fd_rating feedbackData = None \<or> fd_rating feedbackData = Some 0
             \<or> \<not> truthy_str (fd_comment feedbackData)
          then Inl rating_and_comment_required
          else
            let r = the (fd_rating feedbackData); c = the (fd_comment feedbackData)
            in if r < 1 \<or> r > 5 then Inl rating_must_be_between_1_and_5
               else
                 let rowid = Suc (feedbacks_seq db)
                 in Inr (\<lparr>cf_id = rowid, cf_siteSlug = normalizedSlug,
                           cf_name = fd_name feedbackData, cf_email = fd_email feedbackData,
                           cf_phone = fd_phone feedbackData, cf_rating = r, cf_comment = c,
                           cf_approved = False, cf_createdAt = now\<rparr>,
                         db\<lparr>feedbacks := feedbacks db @
                               [\<lparr>feedback_id = rowid, feedback_site_slug = normalizedSlug,
                                 feedback_name = trimmed_or_null (fd_name feedbackData),
                                 feedback_email =
                                   trimmed_or_null (map_option toLowerCase (fd_email feedbackData)),
                                 feedback_phone = trimmed_or_null (fd_phone feedbackData),
                                 rating = r, comment = trim c, approved = False,
                                 feedback_created_at = now\<rparr>],
                             feedbacks_seq := rowid\<rparr>))"

text \<open>
  \<open>approveFeedback(id, approved, userId = null)\<close>: the \<open>UPDATE\<close> runs first, then
  the error is raised when it changed no row. The third argument, of any type, is not
  read. The result is what is returned or raised (row id, flag, time), and the database
  after the call.
\<close>

definition approveFeedback ::
  "database \<Rightarrow> int \<Rightarrow> nat \<Rightarrow> bool \<Rightarrow> 'a \<Rightarrow> (error + (nat \<times> bool \<times> int)) \<times> database" where
  "approveFeedback db now fid appr userId =
     (let db' = db\<lparr>feedbacks := map (\<lambda>f. if feedback_id f = fid then f\<lparr>approved := appr\<rparr> else f)
                                  (feedbacks db)\<rparr>
      in if filter (\<lambda>f. feedback_id f = fid) (feedbacks db) = []
         then (Inl feedback_not_found, db')
         else (case find (\<lambda>f. feedback_id f = fid) (feedbacks db') of
                 None \<Rightarrow> (Inl TypeError, db')
               | Some f \<Rightarrow> (Inr (feedback_id f, approved f, now), db')))"

section \<open>The storage layer of the second server\<close>

text \<open>
  The feedback rows of \<open>shared/schema.ts\<close>, which carry a public-visibility flag, and
  \<open>updateFeedbackApproval(id, approved, isPublic = false)\<close> of the storage class: an
  \<open>UPDATE ... SET approved, isPublic WHERE id\<close> whose promise resolves whatever the
  number of rows it changed.
\<close>

record stored_feedback =
  sf_id :: nat
  sf_siteSlug :: string
  sf_name :: "string option"
  sf_email :: "string option"
  sf_rating :: int
  sf_comment :: string
  sf_approved :: bool
  sf_isPublic :: bool
  sf_createdAt :: int

definition updateFeedbackApproval ::
  "stored_feedback list \<Rightarrow> nat \<Rightarrow> bool \<Rightarrow> bool option \<Rightarrow> error + stored_feedback list" where
  "updateFeedbackApproval rows fid appr isPublic =
     (let pub = (case isPublic of None \<Rightarrow> False | Some b \<Rightarrow> b)
      in Inr (map (\<lambda>f. if sf_id f = fid then f\<lparr>sf_approved := appr, sf_isPublic := pub\<rparr> else f)
                rows))"

section \<open>Example data\<close>

text \<open>Two accounts of the seed kind: a VIP plan whose billing lapsed, and an essential
  plan whose billing is active.\<close>

definition lapsed_vip :: user where
  "lapsed_vip = \<lparr>user_id = 2, role = ''client'', email = ''cliente@exemplo.com'',
     site_slug = Some ''SITE-EXEMPLO'', plan = ''vip'', billing_status = Some ''cancelled'',
     billing_next = Some (SqlText ''2023-11-14 22:13:20''), billing_amount = Some 97,
     billing_currency = Some ''BRL'', billing_provider = Some ''mercadopago'',
     updated_at = ''2023-07-22 04:26:40''\<rparr>"

definition paying_essential :: user where
  "paying_essential = \<lparr>user_id = 3, role = ''client'', email = ''loja@exemplo.com'',
     site_slug = Some ''LOJA'', plan = ''essential'', billing_status = Some ''approved'',
     billing_next = Some (SqlText ''2023-11-14 22:13:20''), billing_amount = Some 47,
     billing_currency = Some ''BRL'', billing_provider = Some ''mercadopago'',
     updated_at = ''2023-07-22 04:26:40''\<rparr>"

definition example_db :: database where
  "example_db = \<lparr>users = [lapsed_vip, paying_essential],
     sites = [\<lparr>slug = ''SITE-EXEMPLO'', active = True, site_notes = [], vip_pin_hash = Some ''h:1234''\<rparr>,
              \<lparr>slug = ''LOJA'', active = True, site_notes = [], vip_pin_hash = None\<rparr>],
     settings_kv = [], settings_seq = 0, feedbacks = [], feedbacks_seq = 0\<rparr>"

text \<open>
  Stand-ins for the JavaScript dates of a server whose local time is UTC, some days after
  the billing date of the two accounts, exact on that date: the only text read as a date is
  the one the two accounts store.
\<close>

definition example_dates :: js_dates where
  "example_dates = \<lparr>Date_now = 1700500000000,
     Date_of = (\<lambda>v. if v = SqlText ''2023-11-14 22:13:20'' then Some 1700000000000 else None),
     Date_plus_days = (\<lambda>t n. t + n * 86400000)\<rparr>"

text \<open>
  SQLite's clock at 2023-11-14 22:13:20 UTC, and a database at that time. Three accounts
  have a billing date in SQLite's own format, 10, 4 and 5 days back; one of them points at
  a site that has no row. A fourth account has the ISO text of the instant 3 days and
  1 hour back. A fifth row, in no table, has the epoch milliseconds of an instant a year
  ahead.
\<close>

definition sweep_now :: sqlite_now where
  "sweep_now n = (if n = - 3 then ''2023-11-11 22:13:20'' else ''2023-11-14 22:13:20'')"

definition overdue_user :: user where
  "overdue_user = \<lparr>user_id = 10, role = ''client'', email = ''demo@exemplo.com'',
     site_slug = Some ''demo'', plan = ''vip'', billing_status = Some ''approved'',
     billing_next = Some (SqlText ''2023-11-04 22:13:20''), billing_amount = Some 97,
     billing_currency = Some ''BRL'', billing_provider = Some ''mercadopago'',
     updated_at = ''2023-07-22 04:26:40''\<rparr>"

definition iso_date_user :: user where
  "iso_date_user = \<lparr>user_id = 11, role = ''client'', email = ''novo@exemplo.com'',
     site_slug = Some ''NOVO'', plan = ''essential'', billing_status = Some ''approved'',
     billing_next = Some (SqlText ''2023-11-11T21:13:20.000Z''), billing_amount = Some 47,
     billing_currency = Some ''BRL'', billing_provider = Some ''mercadopago'',
     updated_at = ''2023-07-22 04:26:40''\<rparr>"

definition ghost_user :: user where
  "ghost_user = \<lparr>user_id = 12, role = ''client'', email = ''ghost@exemplo.com'',
     site_slug = Some ''GHOST'', plan = ''essential'', billing_status = Some ''pending'',
     billing_next = Some (SqlText ''2023-11-10 22:13:20''), billing_amount = None,
     billing_currency = Some ''BRL'', billing_provider = Some ''mercadopago'',
     updated_at = ''2023-07-22 04:26:40''\<rparr>"

definition late_user :: user where
  "late_user = \<lparr>user_id = 13, role = ''client'', email = ''late@exemplo.com'',
     site_slug = Some ''late'', plan = ''essential'', billing_status = Some ''approved'',
     billing_next = Some (SqlText ''2023-11-09 22:13:20''), billing_amount = Some 47,
     billing_currency = Some ''BRL'', billing_provider = Some ''mercadopago'',
     updated_at = ''2023-07-22 04:26:40''\<rparr>"

definition epoch_user :: user where
  "epoch_user = \<lparr>user_id = 14, role = ''client'', email = ''epoch@exemplo.com'',
     site_slug = None, plan = ''essential'', billing_status = Some ''approved'',
     billing_next = Some (SqlNumber 1731536000000), billing_amount = Some 47,
     billing_currency = Some ''BRL'', billing_provider = Some ''mercadopago'',
     updated_at = ''2023-07-22 04:26:40''\<rparr>"

definition sweep_db :: database where
  "sweep_db = \<lparr>users = [overdue_user, iso_date_user, ghost_user, late_user],
     sites = [\<lparr>slug = ''DEMO'', active = True, site_notes = [], vip_pin_hash = None\<rparr>,
              \<lparr>slug = ''NOVO'', active = True, site_notes = [], vip_pin_hash = None\<rparr>,
              \<lparr>slug = ''LATE'', active = True, site_notes = [], vip_pin_hash = None\<rparr>],
     settings_kv = [], settings_seq = 0, feedbacks = [], feedbacks_seq = 0\<rparr>"

text \<open>A settings payload whose \<open>security.vip_pin\<close> is the empty string.\<close>

definition pin_payload :: json where
  "pin_payload = JObj [(''sections'', JObj [(''defs'', JArr []), (''data'', JObj [])]),
                       (''security'', JObj [(''vip_pin'', JStr [])])]"

text \<open>
  Stand-ins for \<open>JSON.parse\<close>, \<open>JSON.stringify\<close> and the hash comparison, exact on
  the texts and values of the examples: the texts \<open>{}\<close> and \<open>null\<close> parse, any
  other text of the examples does not; the empty object prints as \<open>{}\<close>; the hash
  of a PIN is the PIN after \<open>h:\<close>.
\<close>

definition example_parse :: "string \<Rightarrow> json option" where
  "example_parse text =
     (if text = ''{}'' then Some (JObj []) else if text = ''null'' then Some JNull else None)"

definition example_stringify :: "json \<Rightarrow> string" where
  "example_stringify j = (if j = JObj [] then ''{}'' else ''null'')"

definition example_compare :: "string \<Rightarrow> string \<Rightarrow> bool" where
  "example_compare p h = (h = ''h:'' @ p)"

text \<open>Two snapshots of one site, the later one cut short.\<close>

definition settings_db :: database where
  "settings_db = example_db\<lparr>settings_kv :=
      [\<lparr>settings_id = 1, settings_site_slug = ''SITE-EXEMPLO'', settings_json = ''{}'',
        created_at = 1690000000000\<rparr>,
       \<lparr>settings_id = 2, settings_site_slug = ''SITE-EXEMPLO'', settings_json = ''{sections'',
        created_at = 1690000001000\<rparr>],
      settings_seq := 2\<rparr>"

text \<open>Three decoded tokens and a request body for the settings route.\<close>

definition essential_token :: token_user where
  "essential_token = \<lparr>tok_role = ''client'', tok_plan = ''essential''\<rparr>"

definition vip_token :: token_user where
  "vip_token = \<lparr>tok_role = ''client'', tok_plan = ''vip''\<rparr>"

definition admin_token :: token_user where
  "admin_token = \<lparr>tok_role = ''admin'', tok_plan = ''vip''\<rparr>"

definition settings_request :: "string option \<Rightarrow> settings_body" where
  "settings_request pin_arg =
     \<lparr>body_site = Some ''site-exemplo'', body_settings = Some (JObj []), body_pin = pin_arg\<rparr>"

text \<open>Feedback submissions with the ratings 2.5 and 0, and the two feedback stores with
  one row each.\<close>

definition half_star_feedback :: feedback_data where
  "half_star_feedback = \<lparr>fd_siteSlug = Some ''site-exemplo'', fd_name = Some ''Ana '',
     fd_email = None, fd_phone = None, fd_rating = Some (5 / 2), fd_comment = Some ''Bom''\<rparr>"

definition zero_star_feedback :: feedback_data where
  "zero_star_feedback = \<lparr>fd_siteSlug = Some ''site-exemplo'', fd_name = Some ''Ana '',
     fd_email = None, fd_phone = None, fd_rating = Some 0, fd_comment = Some ''Bom''\<rparr>"

definition feedback_db :: database where
  "feedback_db = example_db\<lparr>feedbacks :=
      [\<lparr>feedback_id = 1, feedback_site_slug = ''SITE-EXEMPLO'', feedback_name = Some ''Ana'',
        feedback_email = None, feedback_phone = None, rating = 5, comment = ''Muito bom'',
        approved = False, feedback_created_at = 1690000000000\<rparr>],
      feedbacks_seq := 1\<rparr>"

definition stored_rows :: "stored_feedback list" where
  "stored_rows = [\<lparr>sf_id = 1, sf_siteSlug = ''demo'', sf_name = Some ''Ana'', sf_email = None,
     sf_rating = 5, sf_comment = ''Muito bom'', sf_approved = False, sf_isPublic = False,
     sf_createdAt = 1690000000000\<rparr>]"

section \<open>Properties\<close>

text \<open>
  C5. \<open>isActiveBillingStatus\<close>, in the subscription service and in the authentication
  middleware, is true exactly for the four strings approved, authorized, accredited and
  recurring_charges; an unset status is inactive.
\<close>

theorem isActiveBillingStatus_whitelist:
  "isActiveBillingStatus status =
     (status = Some ''approved'' \<or> status = Some ''authorized''
      \<or> status = Some ''accredited'' \<or> status = Some ''recurring_charges'')
   \<and> auth_isActiveBillingStatus status = isActiveBillingStatus status"
  by (cases status) (auto simp: isActiveBillingStatus_def auth_isActiveBillingStatus_def
      activeStatuses_def)


subsection \<open>Subscription status\<close>

lemma find_mem: "find P xs = Some x \<Longrightarrow> x \<in> set xs"
  by (auto simp: find_Some_iff)

lemma selectUser_mem: "selectUser db n e = Some u \<Longrightarrow> u \<in> set (users db)"
  by (auto simp: selectUser_def dest: find_mem split: if_splits)




text \<open>Conversely, every status returned is the status of the selected row.\<close>

lemma getSubscriptionStatus_returned:
  assumes "getSubscriptionStatus db dates siteSlug email_arg = Inr st"
  shows "\<exists>n u. normalizeSiteSlug siteSlug = Inr n \<and> selectUser db n email_arg = Some u
           \<and> u \<in> set (users db) \<and> statusOf db dates n u = Inr st
           \<and> isVip st = (plan u = ''vip'' \<or> isActiveBillingStatus (billing_status u))"
proof -
  from assms obtain n u where n: "normalizeSiteSlug siteSlug = Inr n"
    and u: "selectUser db n email_arg = Some u" and st: "statusOf db dates n u = Inr st"
    by (auto simp: getSubscriptionStatus_def split: sum.splits option.splits)
  from st have "isVip st = (plan u = ''vip'' \<or> isActiveBillingStatus (billing_status u))"
    by (auto simp: statusOf_def Let_def split: if_splits)
  then show ?thesis using n u st selectUser_mem[OF u] by blast
qed

text \<open>
  C7. A call with a \<open>null\<close> site slug and the e-mail of an existing user: the row
  with that e-mail is in the table, and the call raises a TypeError, since the slug is
  normalised before the lookup. The callers in the server pass \<open>null\<close> with an e-mail.
\<close>

theorem getSubscriptionStatus_null_slug:
  "find (\<lambda>u. LOWER (email u) = LOWER ''cliente@exemplo.com'') (users example_db) = Some lapsed_vip
   \<and> getSubscriptionStatus example_db example_dates None (Some ''cliente@exemplo.com'')
       = Inl TypeError"
  by code_simp

text \<open>With a slug that is a string, the call raises \<open>user_not_found\<close> exactly when
  the lookup selects no row.\<close>

lemma getSubscriptionStatus_user_not_found:
  "(getSubscriptionStatus db dates (Some sl) e = Inl user_not_found)
     = (selectUser db (toUpperCase (trim sl)) e = None)"
  by (auto simp: getSubscriptionStatus_def normalizeSiteSlug_def statusOf_def Let_def
      split: option.splits)


subsection \<open>The grace-period sweep\<close>

lemma normalize_truthy:
  "truthy_str sl \<Longrightarrow> normalizeSiteSlug sl = Inr (toUpperCase (trim (the sl)))"
  by (auto simp: truthy_str_def normalizeSiteSlug_def split: option.splits)

lemma toggleSite_users: "toggleSite db sl a = Inr (r, db') \<Longrightarrow> users db' = users db"
  by (auto simp: toggleSite_def split: sum.splits if_splits)

lemma toggleSite_sites:
  "toggleSite db sl a = Inr (r, db') \<Longrightarrow>
   \<exists>n. normalizeSiteSlug sl = Inr n \<and>
     sites db' = map (\<lambda>s. if slug s = n then s\<lparr>active := a\<rparr> else s) (sites db)"
  by (auto simp: toggleSite_def split: sum.splits if_splits)

lemma toggleSite_fail:
  "toggleSite db sl a = Inl e \<Longrightarrow> truthy_str sl \<Longrightarrow>
   \<exists>n. normalizeSiteSlug sl = Inr n \<and> e = site_not_found \<and> (\<forall>s \<in> set (sites db). slug s \<noteq> n)"
  by (auto simp: toggleSite_def normalizeSiteSlug_def truthy_str_def filter_empty_conv
      split: sum.splits if_splits option.splits)

lemma sweep_users:
  "users (fst (sweep now us (db, c))) =
   map (\<lambda>u. if user_id u \<in> user_id ` set us then cancelled now u else u) (users db)"
proof (induction us arbitrary: db c)
  case Nil
  then show ?case by simp
next
  case (Cons u us)
  let ?db1 = "cancelUser now (user_id u) db"
  have u1: "users ?db1 = map (\<lambda>v. if user_id v = user_id u then cancelled now v else v) (users db)"
    by (simp add: cancelUser_def cancelled_def)
  have comp: "map (\<lambda>v. if user_id v \<in> user_id ` set us then cancelled now v else v) (users ?db1)
      = map (\<lambda>v. if user_id v \<in> user_id ` set (u # us) then cancelled now v else v) (users db)"
    unfolding u1 by (auto simp: cancelled_def)
  show ?case
  proof (cases "truthy_str (site_slug u)")
    case False
    then show ?thesis using Cons.IH[of ?db1 c] comp by (simp add: Let_def)
  next
    case True
    show ?thesis
    proof (cases "toggleSite ?db1 (site_slug u) False")
      case (Inl e)
      then show ?thesis using True Cons.IH[of ?db1] comp by (simp add: Let_def)
    next
      case (Inr p)
      obtain r db2 where p: "p = (r, db2)" by (cases p)
      have "users db2 = users ?db1" using Inr p toggleSite_users by blast
      then show ?thesis using True Inr p Cons.IH[of db2] comp by (simp add: Let_def)
    qed
  qed
qed

lemma sweep_sites:
  "sites (fst (sweep now us (db, c))) =
   map (\<lambda>s. if slug s \<in> set (targets us) then s\<lparr>active := False\<rparr> else s) (sites db)"
proof (induction us arbitrary: db c)
  case Nil
  then show ?case by (simp add: targets_def)
next
  case (Cons u us)
  let ?db1 = "cancelUser now (user_id u) db"
  have s1: "sites ?db1 = sites db" by (simp add: cancelUser_def)
  show ?case
  proof (cases "truthy_str (site_slug u)")
    case False
    then have "targets (u # us) = targets us" by (auto simp: targets_def)
    then show ?thesis using False Cons.IH[of ?db1 c] s1 by (simp add: Let_def)
  next
    case True
    show ?thesis
    proof (cases "toggleSite ?db1 (site_slug u) False")
      case (Inl e)
      from toggleSite_fail[OF Inl True] obtain n where
        n: "normalizeSiteSlug (site_slug u) = Inr n" "\<forall>s \<in> set (sites db). slug s \<noteq> n"
        using s1 by auto
      have "set (targets (u # us)) = insert n (set (targets us))" using n True normalize_truthy[OF True] by (auto simp: targets_def)
      then have "map (\<lambda>s. if slug s \<in> set (targets (u # us)) then s\<lparr>active := False\<rparr> else s) (sites db)
        = map (\<lambda>s. if slug s \<in> set (targets us) then s\<lparr>active := False\<rparr> else s) (sites db)"
        using n(2) by auto
      then show ?thesis using True Inl Cons.IH[of ?db1] s1 by (simp add: Let_def)
    next
      case (Inr p)
      obtain r db2 where p: "p = (r, db2)" by (cases p)
      from toggleSite_sites[OF Inr[unfolded p]] obtain n where
        n: "normalizeSiteSlug (site_slug u) = Inr n"
           "sites db2 = map (\<lambda>s. if slug s = n then s\<lparr>active := False\<rparr> else s) (sites db)"
        using s1 by auto
      have t: "set (targets (u # us)) = insert n (set (targets us))" using n True normalize_truthy[OF True] by (auto simp: targets_def)
      have "map (\<lambda>s. if slug s \<in> set (targets us) then s\<lparr>active := False\<rparr> else s) (sites db2)
        = map (\<lambda>s. if slug s \<in> set (targets (u # us)) then s\<lparr>active := False\<rparr> else s) (sites db)"
        unfolding n(2) t by auto
      then show ?thesis using True Inr p Cons.IH[of db2] by (simp add: Let_def)
    qed
  qed
qed

lemma sweep_console_mono: "set c \<subseteq> set (snd (sweep now us (db, c)))"
proof (induction us arbitrary: db c)
  case Nil
  then show ?case by simp
next
  case (Cons u us)
  let ?db1 = "cancelUser now (user_id u) db"
  show ?case
  proof (cases "truthy_str (site_slug u)")
    case False
    then show ?thesis using Cons.IH[of c ?db1] by (simp add: Let_def)
  next
    case True
    show ?thesis
    proof (cases "toggleSite ?db1 (site_slug u) False")
      case (Inl e)
      then show ?thesis
        using True Cons.IH[of "c @ [ErrorDeactivating (the (site_slug u)) e]" ?db1]
        by (simp add: Let_def)
    next
      case (Inr p)
      obtain r db2 where p: "p = (r, db2)" by (cases p)
      then show ?thesis
        using True Inr Cons.IH[of "c @ [Deactivated (the (site_slug u))]" db2]
        by (simp add: Let_def)
    qed
  qed
qed

lemma sweep_console_error:
  "u \<in> set us \<Longrightarrow> truthy_str (site_slug u) \<Longrightarrow>
   \<forall>s \<in> set (sites db). slug s \<noteq> toUpperCase (trim (the (site_slug u))) \<Longrightarrow>
   ErrorDeactivating (the (site_slug u)) site_not_found \<in> set (snd (sweep now us (db, c)))"
proof (induction us arbitrary: db c)
  case Nil
  then show ?case by simp
next
  case (Cons w us)
  let ?db1 = "cancelUser now (user_id w) db"
  have s1: "sites ?db1 = sites db" by (simp add: cancelUser_def)
  show ?case
  proof (cases "u = w")
    case True
    have "toggleSite ?db1 (site_slug w) False = Inl site_not_found"
      using Cons.prems True s1 normalize_truthy[of "site_slug w"]
      by (auto simp: toggleSite_def filter_empty_conv)
    moreover have "ErrorDeactivating (the (site_slug w)) site_not_found
        \<in> set (snd (sweep now us (?db1, c @ [ErrorDeactivating (the (site_slug w)) site_not_found])))"
      using sweep_console_mono[of "c @ [ErrorDeactivating (the (site_slug w)) site_not_found]"]
      by auto
    ultimately show ?thesis using True Cons.prems by (simp add: Let_def)
  next
    case False
    then have mem: "u \<in> set us" using Cons.prems by simp
    show ?thesis
    proof (cases "truthy_str (site_slug w)")
      case False
      then show ?thesis using Cons.IH[OF mem Cons.prems(2), of ?db1 c] Cons.prems(3) s1
        by (simp add: Let_def)
    next
      case True
      show ?thesis
      proof (cases "toggleSite ?db1 (site_slug w) False")
        case (Inl e)
        then show ?thesis using True Cons.IH[OF mem Cons.prems(2), of ?db1] Cons.prems(3) s1
          by (simp add: Let_def)
      next
        case (Inr p)
        obtain r db2 where p: "p = (r, db2)" by (cases p)
        from toggleSite_sites[OF Inr[unfolded p]] have
          "\<forall>s \<in> set (sites db2). slug s \<noteq> toUpperCase (trim (the (site_slug u)))"
          using Cons.prems(3) s1 by auto
        then show ?thesis using True Inr p Cons.IH[OF mem Cons.prems(2), of db2]
          by (simp add: Let_def)
      qed
    qed
  qed
qed

lemma overdue_ids:
  assumes "distinct (map user_id (users db))" and "u \<in> set (users db)"
  shows "(user_id u \<in> user_id ` set (filter (overdueUser now) (users db))) = overdueUser now u"
proof -
  have "inj_on user_id (set (users db))" using assms(1) by (simp add: distinct_map)
  then show ?thesis using assms(2) by (auto dest: inj_onD)
qed

lemma sweep_overdue_users:
  assumes "distinct (map user_id (users db))"
  shows "users (fst (sweep now (filter (overdueUser now) (users db)) (db, c))) =
         map (\<lambda>u. if overdueUser now u then cancelled now u else u) (users db)"
  unfolding sweep_users using overdue_ids[OF assms] by (intro map_cong) auto

lemma not_overdue_cancelled: "\<not> overdueUser now' (cancelled now u)"
  by (simp add: overdueUser_def cancelled_def)

lemma second_run_empty:
  "filter (overdueUser now)
     (map (\<lambda>u. if overdueUser now u then cancelled now u else u) us) = []"
  by (induction us) (auto simp: not_overdue_cancelled)



lemma later_run:
  assumes "users db' = map (\<lambda>u. if overdueUser now u then cancelled now u else u) (users db)"
    and "v \<in> set (users db')" and "overdueUser now' v"
  shows "v \<in> set (users db) \<and> \<not> overdueUser now v"
proof -
  from assms(1,2) obtain u where u: "u \<in> set (users db)"
    and v: "v = (if overdueUser now u then cancelled now u else u)" by auto
  show ?thesis
  proof (cases "overdueUser now u")
    case True
    then have "v = cancelled now u" using v by simp
    then show ?thesis using assms(3) not_overdue_cancelled by blast
  next
    case False
    then show ?thesis using u v by simp
  qed
qed

text \<open>
  What one run does to the rows that its \<open>WHERE\<close> clause selects, for distinct user ids:
  these users and no others are cancelled, the site rows with their normalised slugs and
  no others are deactivated, the count is their number, and a second run selects none of
  them.
\<close>

lemma processGracePeriodCheck_selected:
  assumes "distinct (map user_id (users db))"
    and "processGracePeriodCheck db now = (r, db', console)"
  shows "users db' = map (\<lambda>u. if overdueUser now u then cancelled now u else u) (users db)
    \<and> sites db' = map (\<lambda>s. if slug s \<in> set (targets (filter (overdueUser now) (users db)))
                             then s\<lparr>active := False\<rparr> else s) (sites db)
    \<and> processed r = length (filter (overdueUser now) (users db))
    \<and> deactivatedSites r = map (\<lambda>u. the (site_slug u))
          (filter (\<lambda>u. truthy_str (site_slug u)) (filter (overdueUser now) (users db)))
    \<and> fst (processGracePeriodCheck db' now) = \<lparr>processed = 0, deactivatedSites = []\<rparr>
    \<and> (\<forall>now'. \<forall>v \<in> set (filter (overdueUser now') (users db')).
          v \<in> set (users db) \<and> \<not> overdueUser now v)"
proof -
  let ?sel = "filter (overdueUser now) (users db)"
  from assms(2) have r: "r = \<lparr>processed = length ?sel,
        deactivatedSites = map (\<lambda>u. the (site_slug u)) (filter (\<lambda>u. truthy_str (site_slug u)) ?sel)\<rparr>"
    and db': "db' = fst (sweep now ?sel (db, []))"
    by (auto simp: processGracePeriodCheck_def Let_def)
  have us: "users db' = map (\<lambda>u. if overdueUser now u then cancelled now u else u) (users db)"
    unfolding db' by (rule sweep_overdue_users[OF assms(1)])
  have ss: "sites db' = map (\<lambda>s. if slug s \<in> set (targets ?sel)
                             then s\<lparr>active := False\<rparr> else s) (sites db)"
    unfolding db' by (rule sweep_sites)
  have none: "filter (overdueUser now) (users db') = []"
    unfolding us by (rule second_run_empty)
  have again: "fst (processGracePeriodCheck db' now) = \<lparr>processed = 0, deactivatedSites = []\<rparr>"
    by (simp add: processGracePeriodCheck_def Let_def none)
  have later: "\<forall>now'. \<forall>v \<in> set (filter (overdueUser now') (users db')).
          v \<in> set (users db) \<and> \<not> overdueUser now v"
    using later_run[OF us] by auto
  have p: "processed r = length ?sel" using r by simp
  have ds: "deactivatedSites r = map (\<lambda>u. the (site_slug u))
          (filter (\<lambda>u. truthy_str (site_slug u)) ?sel)" using r by simp
  from us ss p ds again later show ?thesis by (intro conjI)
qed

text \<open>
  C2. One run on the example database, at 2023-11-14 22:13:20 UTC. The account whose
  \<open>billing_next\<close> is the ISO text of 2023-11-11 21:13:20 UTC, three days and one hour
  back, with the billing status approved, is not selected: its text is compared byte by
  byte with \<open>2023-11-11 22:13:20\<close>, and \<open>T\<close> is above the space. It is the second
  row of the table before and after the run, and the count is 3, not 4. The list of
  deactivated sites names GHOST, the slug of a selected account, while no site row has
  this slug, so no site was deactivated for it. A row whose \<open>billing_next\<close> is a number,
  here the epoch milliseconds of an instant a year ahead, satisfies the \<open>WHERE\<close> clause.
\<close>

theorem processGracePeriodCheck_iso_date_and_ghost_site:
  "billing_next iso_date_user = Some (SqlText ''2023-11-11T21:13:20.000Z'')
   \<and> billing_status iso_date_user = Some ''approved''
   \<and> sweep_now (- GRACE_DAYS) = ''2023-11-11 22:13:20''
   \<and> users sweep_db ! 1 = iso_date_user
   \<and> users (fst (snd (processGracePeriodCheck sweep_db sweep_now))) ! 1 = iso_date_user
   \<and> processed (fst (processGracePeriodCheck sweep_db sweep_now)) = 3
   \<and> deactivatedSites (fst (processGracePeriodCheck sweep_db sweep_now))
       = [''demo'', ''GHOST'', ''late'']
   \<and> map slug (sites (fst (snd (processGracePeriodCheck sweep_db sweep_now))))
       = [''DEMO'', ''NOVO'', ''LATE'']
   \<and> map active (sites (fst (snd (processGracePeriodCheck sweep_db sweep_now))))
       = [False, True, False]
   \<and> overdueUser sweep_now epoch_user"
  by code_simp

text \<open>
  C8. When the site of one selected user cannot be deactivated (it has no row, so
  \<open>toggleSite\<close> raises \<open>site_not_found\<close>), the sweep still returns its aggregate
  result: the error is on the console, every selected user is cancelled, every site row
  of a selected user is inactive, and the count and the list are those of all selected
  users.
\<close>

theorem sweep_continues_after_failure:
  assumes "distinct (map user_id (users db))"
    and "u \<in> set (users db)"
    and "overdueUser now u"
    and "truthy_str (site_slug u)"
    and "\<forall>s \<in> set (sites db). slug s \<noteq> toUpperCase (trim (the (site_slug u)))"
    and "processGracePeriodCheck db now = (r, db', console)"
  shows "toggleSite (cancelUser now (user_id u) db) (site_slug u) False = Inl site_not_found
    \<and> ErrorDeactivating (the (site_slug u)) site_not_found \<in> set console
    \<and> (\<forall>v \<in> set (users db). overdueUser now v \<longrightarrow> cancelled now v \<in> set (users db'))
    \<and> (\<forall>v \<in> set (users db). overdueUser now v \<longrightarrow> truthy_str (site_slug v) \<longrightarrow>
          (\<forall>s \<in> set (sites db'). slug s = toUpperCase (trim (the (site_slug v))) \<longrightarrow> \<not> active s))
    \<and> processed r = length (filter (overdueUser now) (users db))
    \<and> deactivatedSites r = map (\<lambda>u. the (site_slug u))
          (filter (\<lambda>u. truthy_str (site_slug u)) (filter (overdueUser now) (users db)))"
proof -
  let ?sel = "filter (overdueUser now) (users db)"
  from assms(6) have r: "r = \<lparr>processed = length ?sel,
        deactivatedSites = map (\<lambda>u. the (site_slug u)) (filter (\<lambda>u. truthy_str (site_slug u)) ?sel)\<rparr>"
    and db': "db' = fst (sweep now ?sel (db, []))"
    and console: "console = snd (sweep now ?sel (db, []))"
    by (auto simp: processGracePeriodCheck_def Let_def)
  have fail: "toggleSite (cancelUser now (user_id u) db) (site_slug u) False = Inl site_not_found"
    using assms(4,5) normalize_truthy[OF assms(4)]
    by (auto simp: toggleSite_def cancelUser_def filter_empty_conv)
  have logged: "ErrorDeactivating (the (site_slug u)) site_not_found \<in> set console"
    unfolding console using assms(2,3,4,5) by (intro sweep_console_error) auto
  have us: "users db' = map (\<lambda>u. if overdueUser now u then cancelled now u else u) (users db)"
    unfolding db' by (rule sweep_overdue_users[OF assms(1)])
  have all_cancelled:
    "\<forall>v \<in> set (users db). overdueUser now v \<longrightarrow> cancelled now v \<in> set (users db')"
    unfolding us by force
  have ss: "sites db' = map (\<lambda>s. if slug s \<in> set (targets ?sel)
                             then s\<lparr>active := False\<rparr> else s) (sites db)"
    unfolding db' by (rule sweep_sites)
  have all_sites: "\<forall>v \<in> set (users db). overdueUser now v \<longrightarrow> truthy_str (site_slug v) \<longrightarrow>
          (\<forall>s \<in> set (sites db'). slug s = toUpperCase (trim (the (site_slug v))) \<longrightarrow> \<not> active s)"
    unfolding ss by (auto simp: targets_def)
  show ?thesis using fail logged all_cancelled all_sites r by simp
qed

text \<open>The sweep of the example database, where the site GHOST has no row.\<close>

theorem sweep_continues_after_failure_witness:
  "ErrorDeactivating ''GHOST'' site_not_found
     \<in> set (snd (snd (processGracePeriodCheck sweep_db sweep_now)))
   \<and> cancelled sweep_now late_user \<in> set (users (fst (snd (processGracePeriodCheck sweep_db sweep_now))))
   \<and> processed (fst (processGracePeriodCheck sweep_db sweep_now)) = 3"
proof -
  have d: "distinct (map user_id (users sweep_db))" by code_simp
  have m: "ghost_user \<in> set (users sweep_db)" "late_user \<in> set (users sweep_db)"
    by (simp_all add: sweep_db_def)
  have o: "overdueUser sweep_now ghost_user" "overdueUser sweep_now late_user" by code_simp+
  have t: "truthy_str (site_slug ghost_user)" by code_simp
  have g: "the (site_slug ghost_user) = ''GHOST''" by code_simp
  have n: "\<forall>s \<in> set (sites sweep_db). slug s \<noteq> toUpperCase (trim (the (site_slug ghost_user)))"
    by code_simp
  have e: "processGracePeriodCheck sweep_db sweep_now
      = (fst (processGracePeriodCheck sweep_db sweep_now),
         fst (snd (processGracePeriodCheck sweep_db sweep_now)),
         snd (snd (processGracePeriodCheck sweep_db sweep_now)))" by simp
  have l: "length (filter (overdueUser sweep_now) (users sweep_db)) = 3" by code_simp
  show ?thesis using sweep_continues_after_failure[OF d m(1) o(1) t n e] m(2) o(2) g l by auto
qed



subsection \<open>Settings\<close>

lemma map_of_replace:
  "map_of kvs k = Some x \<Longrightarrow>
   map_of (map (\<lambda>kv. if fst kv = k then (k, v) else kv) kvs) k = Some v"
  by (induction kvs) (auto split: if_splits)

lemma deleteProp_no_key: "deleteProp sec k = JObj kvs \<Longrightarrow> k \<notin> fst ` set kvs"
  by (cases sec) auto

lemma defaultSettings_no_vip_pin: "\<not> has_vip_pin defaultSettings"
  by (simp add: has_vip_pin_def defaultSettings_def)

lemma readSettings_no_vip_pin:
  assumes "readSettings parse text = Inr j"
  shows "\<not> has_vip_pin j"
proof -
  from assms obtain settings where p: "parse text = Some settings"
    by (auto simp: readSettings_def split: option.splits)
  show ?thesis
  proof (cases settings)
    case (JObj kvs)
    show ?thesis
    proof (cases "map_of kvs ''security''")
      case None
      then have "j = JObj kvs" using assms p JObj by (simp add: readSettings_def)
      then show ?thesis using None by (simp add: has_vip_pin_def)
    next
      case (Some sec)
      show ?thesis
      proof (cases "truthy sec")
        case True
        then have j: "j = replaceProp settings ''security'' (deleteProp sec ''vip_pin'')"
          using assms p JObj Some by (simp add: readSettings_def)
        have "map_of (map (\<lambda>kv. if fst kv = ''security''
                                  then (''security'', deleteProp sec ''vip_pin'') else kv) kvs)
                ''security'' = Some (deleteProp sec ''vip_pin'')"
          using Some by (rule map_of_replace)
        then show ?thesis unfolding j JObj
          by (auto simp: has_vip_pin_def dest: deleteProp_no_key split: json.splits)
      next
        case False
        then have "j = settings" using assms p JObj Some by (simp add: readSettings_def)
        moreover have "\<forall>s. sec \<noteq> JObj s" using False by auto
        ultimately show ?thesis using JObj Some
          by (auto simp: has_vip_pin_def split: json.splits)
      qed
    qed
  qed (use assms p in \<open>auto simp: readSettings_def has_vip_pin_def\<close>)
qed

lemma getSettings_no_vip_pin:
  "getSettings parse db siteSlug = Inr j \<Longrightarrow> \<not> has_vip_pin j"
  by (auto simp: getSettings_def defaultSettings_no_vip_pin readSettings_no_vip_pin
      split: sum.splits option.splits)

lemma cleanSettings_has_vip_pin:
  "has_vip_pin (cleanSettings s) =
     (\<exists>sec p. map_of (spread s) ''security'' = Some (JObj sec)
              \<and> map_of sec ''vip_pin'' = Some p \<and> \<not> truthy p)"
proof (cases "map_of (spread s) ''security''")
  case None
  then show ?thesis by (simp add: cleanSettings_def has_vip_pin_def)
next
  case (Some sec)
  show ?thesis
  proof (cases sec)
    case (JObj kvs)
    show ?thesis
    proof (cases "map_of kvs ''vip_pin''")
      case None
      then have "''vip_pin'' \<notin> fst ` set kvs" by (simp add: map_of_eq_None_iff)
      then show ?thesis using Some JObj None
        by (simp add: cleanSettings_def has_vip_pin_def)
    next
      case p: (Some p)
      then have mem: "''vip_pin'' \<in> fst ` set kvs"
        by (metis map_of_eq_None_iff option.distinct(1))
      show ?thesis
      proof (cases "truthy p")
        case True
        have "map_of (map (\<lambda>kv. if fst kv = ''security''
                 then (''security'', JObj (filter (\<lambda>kv. fst kv \<noteq> ''vip_pin'') kvs)) else kv)
                 (spread s))
                ''security'' = Some (JObj (filter (\<lambda>kv. fst kv \<noteq> ''vip_pin'') kvs))"
          using Some by (rule map_of_replace)
        then show ?thesis using Some JObj p True
          by (auto simp: cleanSettings_def has_vip_pin_def)
      next
        case False
        then show ?thesis using Some JObj p mem
          by (simp add: cleanSettings_def has_vip_pin_def)
      qed
    qed
  qed (use Some in \<open>simp_all add: cleanSettings_def has_vip_pin_def\<close>)
qed

text \<open>
  C3. The write path at a payload whose \<open>security.vip_pin\<close> is the empty string: the
  guard \<open>cleanSettings.security.vip_pin\<close> is falsy, nothing is deleted, and the text
  stored in the one new snapshot is the serialisation of the payload as it came, with
  its \<open>security.vip_pin\<close> member. (The read path never returns the member, lemma
  \<open>getSettings_no_vip_pin\<close>; the write path keeps it exactly when its value is falsy,
  lemma \<open>cleanSettings_has_vip_pin\<close>.)
\<close>

theorem saveSettings_keeps_falsy_vip_pin:
  "cleanSettings pin_payload = pin_payload
   \<and> has_vip_pin (cleanSettings pin_payload)
   \<and> map settings_json
        (settings_kv (snd (projr (saveSettings stringify compare example_db 1700000000000
                                    (Some ''site-exemplo'') pin_payload None False))))
       = [stringify pin_payload]"
  by (simp add: cleanSettings_def pin_payload_def has_vip_pin_def saveSettings_def
      normalizeSiteSlug_def insertSettings_def example_db_def Let_def)

text \<open>
  C10. For a slug that is a string, \<open>getSettings\<close> always returns a settings value:
  the object \<open>{ sections: { defs: [], data: {} } }\<close> when the site has no snapshot, and
  the same object when the text of its latest snapshot does not parse.
\<close>

theorem getSettings_total:
  "(\<exists>j. getSettings parse db (Some sl) = Inr j)
   \<and> (filter (\<lambda>r. settings_site_slug r = toUpperCase (trim sl)) (settings_kv db) = []
        \<longrightarrow> getSettings parse db (Some sl)
            = Inr (JObj [(''sections'', JObj [(''defs'', JArr []), (''data'', JObj [])])]))
   \<and> (\<forall>row. latestSettings (filter (\<lambda>r. settings_site_slug r = toUpperCase (trim sl))
                               (settings_kv db)) = Some row
              \<and> parse (settings_json row) = None
        \<longrightarrow> getSettings parse db (Some sl)
            = Inr (JObj [(''sections'', JObj [(''defs'', JArr []), (''data'', JObj [])])]))"
  by (auto simp: getSettings_def normalizeSiteSlug_def latestSettings_def readSettings_def
      defaultSettings_def split: sum.splits option.splits list.splits)

text \<open>A site whose latest snapshot does not parse, and a site with no snapshot.\<close>

theorem getSettings_total_witness:
  "example_parse ''{sections'' = None
   \<and> getSettings example_parse settings_db (Some ''site-exemplo'')
       = Inr (JObj [(''sections'', JObj [(''defs'', JArr []), (''data'', JObj [])])])
   \<and> getSettings example_parse settings_db (Some ''loja'')
       = Inr (JObj [(''sections'', JObj [(''defs'', JArr []), (''data'', JObj [])])])"
proof -
  have l: "latestSettings (filter (\<lambda>r. settings_site_slug r = toUpperCase (trim ''site-exemplo''))
             (settings_kv settings_db))
        = Some \<lparr>settings_id = 2, settings_site_slug = ''SITE-EXEMPLO'',
                  settings_json = ''{sections'', created_at = 1690000001000\<rparr>"
    by code_simp
  have p: "example_parse ''{sections'' = None" by code_simp
  have e: "filter (\<lambda>r. settings_site_slug r = toUpperCase (trim ''loja''))
             (settings_kv settings_db) = []"
    by code_simp
  note th = getSettings_total[of example_parse settings_db]
  have a: "getSettings example_parse settings_db (Some ''site-exemplo'')
       = Inr (JObj [(''sections'', JObj [(''defs'', JArr []), (''data'', JObj [])])])"
    using th[of "''site-exemplo''"] l p by auto
  have b: "getSettings example_parse settings_db (Some ''loja'')
       = Inr (JObj [(''sections'', JObj [(''defs'', JArr []), (''data'', JObj [])])])"
    using th[of "''loja''"] e by blast
  from p a b show ?thesis by (intro conjI)
qed

subsection \<open>The settings route\<close>

lemma validateVipPin_missing:
  "\<not> truthy_str pin \<Longrightarrow> validateVipPin compare db sl pin = Inr False"
  by (simp add: validateVipPin_def)

text \<open>
  C4. A request to write settings that carries a site and a settings value, from an
  authenticated user. A user who is neither admin nor on the vip plan gets
  \<open>vip_or_admin_required\<close> whatever the PIN and the hash comparison are, and nothing
  is stored; a vip-plan user who is not admin and whose PIN is missing or does not
  validate gets \<open>invalid_pin\<close>, and nothing is stored; an admin's snapshot is stored
  without any PIN check.
\<close>

theorem post_settings_authorization:
  assumes "body_site body = Some s" and "s \<noteq> []"
    and "body_settings body = Some settings" and "truthy settings"
  shows "(tok_role u \<noteq> ''admin'' \<and> tok_plan u \<noteq> ''vip'' \<longrightarrow>
            post_settings stringify compare db now (Bearer u) body
              = (Failure 403 ''vip_or_admin_required'', db))
    \<and> (tok_role u \<noteq> ''admin'' \<and> tok_plan u = ''vip''
         \<and> (\<not> truthy_str (body_pin body)
             \<or> validateVipPin compare db (Some (toUpperCase (trim s))) (body_pin body) = Inr False)
         \<longrightarrow> post_settings stringify compare db now (Bearer u) body
              = (Failure 403 ''invalid_pin'', db))
    \<and> (tok_role u = ''admin'' \<longrightarrow>
            post_settings stringify compare db now (Bearer u) body
              = (Saved (Suc (settings_seq db)) (toUpperCase (trim s)),
                 snd (insertSettings db now (toUpperCase (trim s))
                        (stringify (cleanSettings settings)))))"
proof -
  have ok: "truthy_str (body_site body)" using assms(1,2) by (simp add: truthy_str_def)
  have n: "normalizeSiteSlug (body_site body) = Inr (toUpperCase (trim s))"
    using assms(1) by (simp add: normalizeSiteSlug_def)
  have a: "tok_role u \<noteq> ''admin'' \<and> tok_plan u \<noteq> ''vip'' \<longrightarrow>
            post_settings stringify compare db now (Bearer u) body
              = (Failure 403 ''vip_or_admin_required'', db)"
    using ok assms(3,4) by (simp add: post_settings_def Let_def)
  have b: "tok_role u \<noteq> ''admin'' \<and> tok_plan u = ''vip''
         \<and> (\<not> truthy_str (body_pin body)
             \<or> validateVipPin compare db (Some (toUpperCase (trim s))) (body_pin body) = Inr False)
         \<longrightarrow> post_settings stringify compare db now (Bearer u) body
              = (Failure 403 ''invalid_pin'', db)"
    using ok n assms(3,4) validateVipPin_missing[of "body_pin body" compare db]
    by (auto simp: post_settings_def Let_def saveSettings_def)
  have c: "tok_role u = ''admin'' \<longrightarrow>
            post_settings stringify compare db now (Bearer u) body
              = (Saved (Suc (settings_seq db)) (toUpperCase (trim s)),
                 snd (insertSettings db now (toUpperCase (trim s))
                        (stringify (cleanSettings settings))))"
    using ok n assms(3,4)
    by (simp add: post_settings_def Let_def saveSettings_def insertSettings_def)
  from a b c show ?thesis by (intro conjI)
qed

text \<open>The three cases on the example database.\<close>

theorem post_settings_authorization_witness:
  "post_settings example_stringify example_compare settings_db 1700000000000
           (Bearer essential_token) (settings_request (Some ''1234''))
      = (Failure 403 ''vip_or_admin_required'', settings_db)
   \<and> post_settings example_stringify example_compare settings_db 1700000000000
           (Bearer vip_token) (settings_request (Some ''0000''))
      = (Failure 403 ''invalid_pin'', settings_db)
   \<and> fst (post_settings example_stringify example_compare settings_db 1700000000000
           (Bearer admin_token) (settings_request None))
      = Saved 3 ''SITE-EXEMPLO''"
proof -
  have s: "body_site (settings_request p) = Some ''site-exemplo''"
    "body_settings (settings_request p) = Some (JObj [])"
    "body_pin (settings_request p) = p" for p
    by (simp_all add: settings_request_def)
  have ne: "''site-exemplo'' \<noteq> []" by simp
  have t: "truthy (JObj [])" by simp
  have r: "tok_role essential_token \<noteq> ''admin''" "tok_plan essential_token \<noteq> ''vip''"
    "tok_role vip_token \<noteq> ''admin''" "tok_plan vip_token = ''vip''"
    "tok_role admin_token = ''admin''"
    by (simp_all add: essential_token_def vip_token_def admin_token_def)
  have v: "validateVipPin example_compare settings_db (Some (toUpperCase (trim ''site-exemplo'')))
             (Some ''0000'') = Inr False"
    by code_simp
  have q: "settings_seq settings_db = 2" by code_simp
  have u: "toUpperCase (trim ''site-exemplo'') = ''SITE-EXEMPLO''" by code_simp
  note th = post_settings_authorization[where stringify = example_stringify
      and compare = example_compare and db = settings_db and now = 1700000000000,
      OF _ ne _ t]
  have a: "post_settings example_stringify example_compare settings_db 1700000000000
           (Bearer essential_token) (settings_request (Some ''1234''))
      = (Failure 403 ''vip_or_admin_required'', settings_db)"
    using th[OF s(1)[of "Some ''1234''"] s(2), where u = essential_token] r(1,2) by blast
  have b: "post_settings example_stringify example_compare settings_db 1700000000000
           (Bearer vip_token) (settings_request (Some ''0000''))
      = (Failure 403 ''invalid_pin'', settings_db)"
    using th[OF s(1)[of "Some ''0000''"] s(2), where u = vip_token] r(3,4) v s(3) by simp
  have c: "fst (post_settings example_stringify example_compare settings_db 1700000000000
           (Bearer admin_token) (settings_request None))
      = Saved 3 ''SITE-EXEMPLO''"
    using th[OF s(1)[of None] s(2), where u = admin_token] r(5) q u by simp
  from a b c show ?thesis by (intro conjI)
qed


subsection \<open>Feedback\<close>

text \<open>
  C9. \<open>createFeedback\<close> at the rating 2.5: the call succeeds and the row is stored with
  the rating 2.5. At the rating 0 it raises \<open>rating_and_comment_required\<close>, not the
  error of the range check.
\<close>

theorem createFeedback_accepts_fraction:
  "\<not> isl (createFeedback example_db 1700000000000 half_star_feedback)
   \<and> map rating (feedbacks (snd (projr (createFeedback example_db 1700000000000
                                          half_star_feedback)))) = [5 / 2]
   \<and> createFeedback example_db 1700000000000 zero_star_feedback
       = Inl rating_and_comment_required"
  by code_simp

text \<open>What the validation does guarantee: the errors for a missing rating or comment and
  for a non-zero rating outside the range, and an unapproved row for every rating in
  the range.\<close>

lemma createFeedback_validation:
  assumes "fd_siteSlug fd = Some s"
  shows "(fd_rating fd = None \<or> \<not> truthy_str (fd_comment fd)
            \<longrightarrow> createFeedback db now fd = Inl rating_and_comment_required)
    \<and> (\<forall>r. fd_rating fd = Some r \<and> r \<noteq> 0 \<and> truthy_str (fd_comment fd) \<and> (r < 1 \<or> 5 < r)
            \<longrightarrow> createFeedback db now fd = Inl rating_must_be_between_1_and_5)
    \<and> (\<forall>r. fd_rating fd = Some r \<and> truthy_str (fd_comment fd) \<and> 1 \<le> r \<and> r \<le> 5
            \<longrightarrow> (\<exists>cf row. createFeedback db now fd
                     = Inr (cf, db\<lparr>feedbacks := feedbacks db @ [row],
                                    feedbacks_seq := Suc (feedbacks_seq db)\<rparr>)
                   \<and> cf_approved cf = False \<and> approved row = False \<and> rating row = r))"
  using assms by (auto simp: createFeedback_def normalizeSiteSlug_def Let_def)

lemma createFeedback_unapproved:
  assumes "createFeedback db now fd = Inr (cf, db')"
  shows "\<exists>row. feedbacks db' = feedbacks db @ [row] \<and> approved row = False
           \<and> 1 \<le> rating row \<and> rating row \<le> 5 \<and> cf_approved cf = False"
  using assms by (auto simp: createFeedback_def Let_def split: sum.splits if_splits)

lemma set_flag_idem:
  "map (\<lambda>f. if feedback_id f = fid then f\<lparr>approved := a\<rparr> else f)
     (map (\<lambda>f. if feedback_id f = fid then f\<lparr>approved := a\<rparr> else f) xs)
   = map (\<lambda>f. if feedback_id f = fid then f\<lparr>approved := a\<rparr> else f) xs"
  by (induction xs) auto

lemma set_flag_absent:
  "filter (\<lambda>f. feedback_id f = fid) xs = [] \<Longrightarrow>
   map (\<lambda>f. if feedback_id f = fid then f\<lparr>approved := a\<rparr> else f) xs = xs"
  by (induction xs) (auto split: if_splits)

lemma set_flag_find:
  "filter (\<lambda>f. feedback_id f = fid) xs \<noteq> [] \<Longrightarrow>
   \<exists>f. find (\<lambda>f. feedback_id f = fid)
         (map (\<lambda>f. if feedback_id f = fid then f\<lparr>approved := a\<rparr> else f) xs) = Some f
       \<and> feedback_id f = fid \<and> approved f = a"
  by (induction xs) (auto split: if_splits)

lemma set_flag_filter:
  "filter (\<lambda>f. feedback_id f = fid)
     (map (\<lambda>f. if feedback_id f = fid then f\<lparr>approved := a\<rparr> else f) xs) = []
   \<longleftrightarrow> filter (\<lambda>f. feedback_id f = fid) xs = []"
  by (induction xs) (auto split: if_splits)

lemma approveFeedback_absent:
  "filter (\<lambda>f. feedback_id f = fid) (feedbacks db) = [] \<Longrightarrow>
   approveFeedback db now fid appr x = (Inl feedback_not_found, db)"
  by (simp add: approveFeedback_def Let_def set_flag_absent)

lemma approveFeedback_present:
  assumes "filter (\<lambda>f. feedback_id f = fid) (feedbacks db) \<noteq> []"
  shows "approveFeedback db now fid appr x
     = (Inr (fid, appr, now),
        db\<lparr>feedbacks := map (\<lambda>f. if feedback_id f = fid then f\<lparr>approved := appr\<rparr> else f)
                            (feedbacks db)\<rparr>)"
  using assms set_flag_find[OF assms, of appr]
  by (auto simp: approveFeedback_def Let_def)

lemma updateFeedbackApproval_eq:
  "updateFeedbackApproval rows fid appr isPublic
     = Inr (map (\<lambda>f. if sf_id f = fid
                      then f\<lparr>sf_approved := appr, sf_isPublic := (isPublic = Some True)\<rparr>
                      else f) rows)"
proof -
  have "(case isPublic of None \<Rightarrow> False | Some b \<Rightarrow> b) = (isPublic = Some True)"
    by (cases isPublic) auto
  then show ?thesis by (simp add: updateFeedbackApproval_def Let_def)
qed

lemma set_both_idem:
  "map (\<lambda>f. if sf_id f = fid then f\<lparr>sf_approved := a, sf_isPublic := p\<rparr> else f)
     (map (\<lambda>f. if sf_id f = fid then f\<lparr>sf_approved := a, sf_isPublic := p\<rparr> else f) xs)
   = map (\<lambda>f. if sf_id f = fid then f\<lparr>sf_approved := a, sf_isPublic := p\<rparr> else f) xs"
  by (induction xs) auto

lemma set_both_absent:
  "filter (\<lambda>f. sf_id f = fid) xs = [] \<Longrightarrow>
   map (\<lambda>f. if sf_id f = fid then f\<lparr>sf_approved := a, sf_isPublic := p\<rparr> else f) xs = xs"
  by (induction xs) (auto split: if_splits)

text \<open>
  The storage layer's update resolves on an id that no row has, and the feedback
  service's database and result do not depend on the third argument.
\<close>

theorem approveFeedback_counterexample:
  "updateFeedbackApproval stored_rows 7 True (Some True) = Inr stored_rows
   \<and> approveFeedback feedback_db 1700000000000 1 True (Some True)
       = approveFeedback feedback_db 1700000000000 1 True (Some False)"
  by code_simp

text \<open>
  C6, amended. \<open>FeedbackService.approveFeedback\<close> raises \<open>feedback_not_found\<close> and
  leaves the database as it was when no row has the id; otherwise it sets the approved
  flag of the rows with that id, and only that, and doing it again changes nothing. The
  storage layer's \<open>updateFeedbackApproval\<close> sets the approved flag and the
  public-visibility flag (false when not given) of the rows with that id, doing it again
  changes nothing, and on an id that no row has it resolves with the rows unchanged.
\<close>

theorem approveFeedback_flags:
  "(filter (\<lambda>f. feedback_id f = fid) (feedbacks db) = []
      \<longrightarrow> approveFeedback db now fid appr x = (Inl feedback_not_found, db))
   \<and> (filter (\<lambda>f. feedback_id f = fid) (feedbacks db) \<noteq> []
      \<longrightarrow> approveFeedback db now fid appr x
            = (Inr (fid, appr, now),
               db\<lparr>feedbacks := map (\<lambda>f. if feedback_id f = fid then f\<lparr>approved := appr\<rparr> else f)
                                   (feedbacks db)\<rparr>)
          \<and> snd (approveFeedback (snd (approveFeedback db now fid appr x)) now fid appr x)
            = snd (approveFeedback db now fid appr x))
   \<and> updateFeedbackApproval rows fid appr isPublic
        = Inr (map (\<lambda>f. if sf_id f = fid
                         then f\<lparr>sf_approved := appr, sf_isPublic := (isPublic = Some True)\<rparr>
                         else f) rows)
   \<and> (\<forall>rows'. updateFeedbackApproval rows fid appr isPublic = Inr rows'
         \<longrightarrow> updateFeedbackApproval rows' fid appr isPublic = Inr rows')
   \<and> (filter (\<lambda>f. sf_id f = fid) rows = []
         \<longrightarrow> updateFeedbackApproval rows fid appr isPublic = Inr rows)"
proof -
  have a: "filter (\<lambda>f. feedback_id f = fid) (feedbacks db) = []
      \<longrightarrow> approveFeedback db now fid appr x = (Inl feedback_not_found, db)"
    by (simp add: approveFeedback_absent)
  have b: "filter (\<lambda>f. feedback_id f = fid) (feedbacks db) \<noteq> []
      \<longrightarrow> approveFeedback db now fid appr x
            = (Inr (fid, appr, now),
               db\<lparr>feedbacks := map (\<lambda>f. if feedback_id f = fid then f\<lparr>approved := appr\<rparr> else f)
                                   (feedbacks db)\<rparr>)
          \<and> snd (approveFeedback (snd (approveFeedback db now fid appr x)) now fid appr x)
            = snd (approveFeedback db now fid appr x)"
  proof
    assume ne: "filter (\<lambda>f. feedback_id f = fid) (feedbacks db) \<noteq> []"
    let ?db' = "db\<lparr>feedbacks := map (\<lambda>f. if feedback_id f = fid then f\<lparr>approved := appr\<rparr> else f)
                                   (feedbacks db)\<rparr>"
    have 1: "approveFeedback db now fid appr x = (Inr (fid, appr, now), ?db')"
      by (rule approveFeedback_present[OF ne])
    have ne': "filter (\<lambda>f. feedback_id f = fid) (feedbacks ?db') \<noteq> []"
      using ne by (simp add: set_flag_filter)
    have 2: "snd (approveFeedback ?db' now fid appr x) = ?db'"
      unfolding approveFeedback_present[OF ne'] by (simp add: set_flag_idem)
    show "approveFeedback db now fid appr x = (Inr (fid, appr, now), ?db')
          \<and> snd (approveFeedback (snd (approveFeedback db now fid appr x)) now fid appr x)
            = snd (approveFeedback db now fid appr x)"
      using 1 2 by simp
  qed
  have c: "updateFeedbackApproval rows fid appr isPublic
        = Inr (map (\<lambda>f. if sf_id f = fid
                         then f\<lparr>sf_approved := appr, sf_isPublic := (isPublic = Some True)\<rparr>
                         else f) rows)"
    by (rule updateFeedbackApproval_eq)
  have d: "\<forall>rows'. updateFeedbackApproval rows fid appr isPublic = Inr rows'
         \<longrightarrow> updateFeedbackApproval rows' fid appr isPublic = Inr rows'"
    by (simp add: updateFeedbackApproval_eq set_both_idem)
  have e: "filter (\<lambda>f. sf_id f = fid) rows = []
         \<longrightarrow> updateFeedbackApproval rows fid appr isPublic = Inr rows"
    by (simp add: updateFeedbackApproval_eq set_both_absent)
  from a b c d e show ?thesis by (intro conjI)
qed

text \<open>An absent and a present id in the example stores.\<close>

theorem approveFeedback_flags_witness:
  "approveFeedback feedback_db 1700000000000 7 True () = (Inl feedback_not_found, feedback_db)
   \<and> fst (approveFeedback feedback_db 1700000000000 1 True ()) = Inr (1, True, 1700000000000)
   \<and> updateFeedbackApproval stored_rows 7 True (Some True) = Inr stored_rows"
proof -
  have n: "filter (\<lambda>f. feedback_id f = 7) (feedbacks feedback_db) = []" by code_simp
  have y: "filter (\<lambda>f. feedback_id f = 1) (feedbacks feedback_db) \<noteq> []" by code_simp
  have z: "filter (\<lambda>f. sf_id f = 7) stored_rows = []" by code_simp
  have a: "approveFeedback feedback_db 1700000000000 7 True () = (Inl feedback_not_found, feedback_db)"
    using approveFeedback_flags[of 7 feedback_db 1700000000000 True "()" stored_rows None] n
    by blast
  have b: "fst (approveFeedback feedback_db 1700000000000 1 True ()) = Inr (1, True, 1700000000000)"
    using approveFeedback_flags[of 1 feedback_db 1700000000000 True "()" stored_rows None] y
    by simp
  have c: "updateFeedbackApproval stored_rows 7 True (Some True) = Inr stored_rows"
    using approveFeedback_flags[of 7 feedback_db 1700000000000 True "()" stored_rows "Some True"] z
    by blast
  from a b c show ?thesis by (intro conjI)
qed


end
